theory Spec2Isabelle
  imports Complex_Main
begin

section \<open>steamApp: inventory valuation with two expiring caches\<close>

text \<open>
  A shallow embedding of \<^verbatim>\<open>steamApp.py\<close>. Python floats are modelled as exact
  rationals (no rounding error, no infinities, no NaN). Every effect of the program is
  explicit: the two database tables and the clock are fields of the state, every call
  of \<^verbatim>\<open>requests.get\<close> and \<^verbatim>\<open>time.sleep\<close> is appended to a trace, what the network
  answers and what the random generator draws is read from an environment. A Python
  exception is the \<open>Inl\<close> branch of a sum.
\<close>

subsection \<open>JSON values and the dynamic typing of Python\<close>

datatype json =
    JNull
  | JBool bool
  | JNum rat
  | JStr string
  | JArr "json list"
  | JObj "(string \<times> json) list"

datatype exn = RequestException | ValueError | TypeError | AttributeError | IndexError

text \<open>Truth value of an object, as \<^verbatim>\<open>if x:\<close> tests it.\<close>

fun truthy :: "json \<Rightarrow> bool" where
  "truthy JNull = False"
| "truthy (JBool b) = b"
| "truthy (JNum x) = (x \<noteq> 0)"
| "truthy (JStr s) = (s \<noteq> [])"
| "truthy (JArr xs) = (xs \<noteq> [])"
| "truthy (JObj kvs) = (kvs \<noteq> [])"

text \<open>\<^verbatim>\<open>d.get(k, default)\<close>: only a dict has the method.\<close>

fun py_get :: "json \<Rightarrow> string \<Rightarrow> json \<Rightarrow> exn + json" where
  "py_get (JObj kvs) k dflt = Inr (case map_of kvs k of Some v \<Rightarrow> v | None \<Rightarrow> dflt)"
| "py_get _ k dflt = Inl AttributeError"

subsection \<open>State, environment and effects\<close>

type_synonym headers = "(string \<times> string) list"

datatype event = Get string headers | Sleep rat

text \<open>
  What one call of \<^verbatim>\<open>requests.get\<close> meets: a transport failure (time-out, connection
  error), or a response with a status code and a body; the body is \<open>None\<close> when it is
  not JSON.
\<close>

datatype outcome = Failure | Response nat "json option"

record env =
  CSFLOAT_API_KEY :: "string option"
  respond :: "nat \<Rightarrow> string \<Rightarrow> outcome"
  random_bits :: "nat \<Rightarrow> nat"
  float_of_str :: "string \<Rightarrow> rat option"

record state =
  item_prices :: "string \<rightharpoonup> rat \<times> rat"
  inventory_values :: "string \<rightharpoonup> rat \<times> rat"
  clock :: rat
  requests :: nat
  draws :: nat
  trace :: "event list"

type_synonym 'a res = "(exn + 'a) \<times> state"

text \<open>\<^verbatim>\<open>time.sleep(d)\<close> raises ValueError on a negative length.\<close>

definition time_sleep :: "rat \<Rightarrow> state \<Rightarrow> unit res" where
  "time_sleep d st =
     (if d < 0 then (Inl ValueError, st)
      else (Inr (), st\<lparr>clock := clock st + d, trace := trace st @ [Sleep d]\<rparr>))"

definition requests_get :: "env \<Rightarrow> string \<Rightarrow> headers \<Rightarrow> state \<Rightarrow> outcome \<times> state" where
  "requests_get w url hdrs st =
     (respond w (requests st) url,
      st\<lparr>requests := requests st + 1, trace := trace st @ [Get url hdrs]\<rparr>)"

subsection \<open>safe_request\<close>

text \<open>
  The body of the loop \<^verbatim>\<open>for attempt in range(retries)\<close>, by recursion on the list
  of attempt numbers still to run. \<^verbatim>\<open>r.json()\<close> on a body that is not JSON raises
  \<^verbatim>\<open>requests.JSONDecodeError\<close>, a \<^verbatim>\<open>RequestException\<close> (requests 2.27 and later), so
  the handler catches it like a transport failure. The result \<open>JNull\<close> is Python's
  \<^verbatim>\<open>None\<close>.
\<close>

fun attempts :: "env \<Rightarrow> string \<Rightarrow> headers \<Rightarrow> rat \<Rightarrow> nat list \<Rightarrow> state \<Rightarrow> json res" where
  "attempts w url hdrs backoff [] st = (Inr JNull, st)"
| "attempts w url hdrs backoff (attempt # rest) st =
     (case requests_get w url hdrs st of
        (Response status body, st1) \<Rightarrow>
          if status = 200 then
            (case body of
               Some j \<Rightarrow> (Inr j, st1)
             | None \<Rightarrow>
                 (case time_sleep (backoff * (of_nat attempt + 1)) st1 of
                    (Inl e, st2) \<Rightarrow> (Inl e, st2)
                  | (Inr _, st2) \<Rightarrow> attempts w url hdrs backoff rest st2))
          else if status = 429 then
            (case time_sleep (backoff * (of_nat attempt + 1)) st1 of
               (Inl e, st2) \<Rightarrow> (Inl e, st2)
             | (Inr _, st2) \<Rightarrow> attempts w url hdrs backoff rest st2)
          else (Inr JNull, st1)
      | (Failure, st1) \<Rightarrow>
          (case time_sleep (backoff * (of_nat attempt + 1)) st1 of
             (Inl e, st2) \<Rightarrow> (Inl e, st2)
           | (Inr _, st2) \<Rightarrow> attempts w url hdrs backoff rest st2))"

definition safe_request :: "env \<Rightarrow> string \<Rightarrow> headers \<Rightarrow> int \<Rightarrow> rat \<Rightarrow> state \<Rightarrow> json res" where
  "safe_request w url hdrs retries backoff st =
     attempts w url hdrs backoff [0 ..< nat retries] st"

subsection \<open>String operations of Python used by the program\<close>

text \<open>Strings are byte strings; \<open>contains sep s\<close> is \<^verbatim>\<open>sep in s\<close>.\<close>

fun contains :: "string \<Rightarrow> string \<Rightarrow> bool" where
  "contains sep [] = (sep = [])"
| "contains sep (c # cs) = (take (length sep) (c # cs) = sep \<or> contains sep cs)"

text \<open>
  \<^verbatim>\<open>s.split(sep)\<close> for a separator that is not empty: \<open>cur\<close> holds, reversed, the
  characters of the piece being read.
\<close>

fun split_from :: "string \<Rightarrow> string \<Rightarrow> string \<Rightarrow> string list" where
  "split_from sep cur [] = [rev cur]"
| "split_from sep cur (c # cs) =
     (if sep \<noteq> [] \<and> take (length sep) (c # cs) = sep
      then rev cur # split_from sep [] (drop (length sep - 1) cs)
      else split_from sep (c # cur) cs)"

definition py_split :: "string \<Rightarrow> string \<Rightarrow> string list" where
  "py_split s sep = split_from sep [] s"

fun join :: "string \<Rightarrow> string list \<Rightarrow> string" where
  "join new [] = []"
| "join new [p] = p"
| "join new (p # q # ps) = p @ new @ join new (q # ps)"

definition py_replace :: "string \<Rightarrow> string \<Rightarrow> string \<Rightarrow> string" where
  "py_replace s old new = join new (py_split s old)"

text \<open>\<^verbatim>\<open>s.strip()\<close> removes the ASCII white space at both ends.\<close>

definition is_space :: "char \<Rightarrow> bool" where
  "is_space c = ((of_char c :: nat) \<in> {9, 10, 11, 12, 13, 28, 29, 30, 31, 32})"

definition py_strip :: "string \<Rightarrow> string" where
  "py_strip s = rev (dropWhile is_space (rev (dropWhile is_space s)))"

text \<open>
  \<^verbatim>\<open>requests.utils.quote\<close> is \<^verbatim>\<open>urllib.parse.quote\<close> with \<^verbatim>\<open>safe='/'\<close>: letters,
  digits and the characters \<^verbatim>\<open>_.-~/\<close> stay, every other byte becomes \<^verbatim>\<open>%XX\<close>.
\<close>

definition is_safe :: "char \<Rightarrow> bool" where
  "is_safe c =
     (let n = (of_char c :: nat) in
      (65 \<le> n \<and> n \<le> 90) \<or> (97 \<le> n \<and> n \<le> 122) \<or> (48 \<le> n \<and> n \<le> 57)
      \<or> c \<in> set ''_.-~/'')"

definition hex_digit :: "nat \<Rightarrow> char" where
  "hex_digit n = ''0123456789ABCDEF'' ! (n mod 16)"

definition quote :: "string \<Rightarrow> string" where
  "quote s =
     concat (map (\<lambda>c. if is_safe c then [c]
                       else [CHR ''%'', hex_digit (of_char c div 16), hex_digit (of_char c)]) s)"

text \<open>\<^verbatim>\<open>xs[i]\<close> raises IndexError out of range.\<close>

definition item :: "'a list \<Rightarrow> nat \<Rightarrow> exn + 'a" where
  "item xs i = (if i < length xs then Inr (xs ! i) else Inl IndexError)"

text \<open>
  \<^verbatim>\<open>round(x, ndigits)\<close> on a float rounds the exact value of \<open>x\<close> to the nearest
  multiple of \<open>10 ^ -ndigits\<close>, a tie to the even one.
\<close>

definition py_round :: "rat \<Rightarrow> nat \<Rightarrow> rat" where
  "py_round x ndigits =
     (let s = x * 10 ^ ndigits; f = \<lfloor>s\<rfloor>; d = s - of_int f in
      (if d < 1 / 2 then of_int f
       else if 1 / 2 < d then of_int f + 1
       else if even f then of_int f else of_int f + 1) / 10 ^ ndigits)"

text \<open>
  \<^verbatim>\<open>float(x)\<close>: a number is itself, a bool is 0 or 1, a string is parsed (ValueError
  when it is no float literal; the grammar of literals is the environment's
  \<open>float_of_str\<close>), anything else is a TypeError.
\<close>

fun py_float :: "env \<Rightarrow> json \<Rightarrow> exn + rat" where
  "py_float w (JNum x) = Inr x"
| "py_float w (JBool b) = Inr (if b then 1 else 0)"
| "py_float w (JStr s) = (case float_of_str w s of Some x \<Rightarrow> Inr x | None \<Rightarrow> Inl ValueError)"
| "py_float w _ = Inl TypeError"

text \<open>\<^verbatim>\<open>k in x\<close> for a string \<open>k\<close>: a key of a dict, an element of a list, a substring.\<close>

fun py_in :: "string \<Rightarrow> json \<Rightarrow> exn + bool" where
  "py_in k (JObj kvs) = Inr (k \<in> set (map fst kvs))"
| "py_in k (JArr xs) = Inr (JStr k \<in> set xs)"
| "py_in k (JStr s) = Inr (contains k s)"
| "py_in k _ = Inl TypeError"

text \<open>What \<^verbatim>\<open>for item in x\<close> runs over: a dict gives its keys, a string its characters.\<close>

fun py_iter :: "json \<Rightarrow> exn + json list" where
  "py_iter (JArr xs) = Inr xs"
| "py_iter (JObj kvs) = Inr (map (\<lambda>kv. JStr (fst kv)) kvs)"
| "py_iter (JStr s) = Inr (map (\<lambda>c. JStr [c]) s)"
| "py_iter _ = Inl TypeError"

subsection \<open>Database\<close>

text \<open>
  Modelled from the spec: the tables \<^verbatim>\<open>inventory_values\<close> and \<^verbatim>\<open>item_prices\<close> (their
  schema is not in the repository) are key-value stores that return the number that was
  written; \<^verbatim>\<open>NOW()\<close> and \<^verbatim>\<open>datetime.utcnow()\<close> read the same clock, in seconds.
  A row is a pair of the value and its \<^verbatim>\<open>expires_at\<close>.
\<close>

definition get_cached_value :: "state \<Rightarrow> string \<Rightarrow> rat option" where
  "get_cached_value db steamid =
     (case inventory_values db steamid of
        Some (v, expires_at) \<Rightarrow> if clock db < expires_at then Some v else None
      | None \<Rightarrow> None)"

definition set_cached_value :: "string \<Rightarrow> rat \<Rightarrow> rat \<Rightarrow> state \<Rightarrow> state" where
  "set_cached_value steamid v ttl db =
     db\<lparr>inventory_values := (inventory_values db)(steamid \<mapsto> (v, clock db + ttl))\<rparr>"

definition get_item_cache :: "state \<Rightarrow> string \<Rightarrow> rat option" where
  "get_item_cache db market_hash =
     (case item_prices db market_hash of
        Some (price, expires_at) \<Rightarrow> if clock db < expires_at then Some price else None
      | None \<Rightarrow> None)"

definition set_item_cache :: "string \<Rightarrow> rat \<Rightarrow> rat \<Rightarrow> state \<Rightarrow> state" where
  "set_item_cache market_hash price ttl db =
     db\<lparr>item_prices := (item_prices db)(market_hash \<mapsto> (price, clock db + ttl))\<rparr>"

subsection \<open>Utilities\<close>

text \<open>
  The argument is \<open>None\<close> when the request carries no \<^verbatim>\<open>trade_url\<close> or one that is not a
  string: the test \<^verbatim>\<open>"/profiles/" in url\<close> or the call of \<^verbatim>\<open>split\<close> raises then, and the
  handler returns \<^verbatim>\<open>None\<close>. A string with neither marker falls off the end of the
  function, which is \<^verbatim>\<open>None\<close> too.
\<close>

definition extract_steamid :: "string option \<Rightarrow> string option" where
  "extract_steamid url =
     (case url of
        None \<Rightarrow> None
      | Some u \<Rightarrow>
          if contains ''/profiles/'' u then
            (case item (py_split u ''/profiles/'') 1 of
               Inl e \<Rightarrow> None
             | Inr p \<Rightarrow> (case item (py_split p ''/'') 0 of Inl e \<Rightarrow> None | Inr s \<Rightarrow> Some s))
          else if contains ''/id/'' u then
            (case item (py_split u ''/id/'') 1 of
               Inl e \<Rightarrow> None
             | Inr p \<Rightarrow> (case item (py_split p ''/'') 0 of Inl e \<Rightarrow> None | Inr s \<Rightarrow> Some s))
          else None)"

subsection \<open>Price functions\<close>

text \<open>
  \<^verbatim>\<open>random.uniform(a, b)\<close> is \<^verbatim>\<open>a + (b - a) * random()\<close>, and \<^verbatim>\<open>random()\<close> is a
  53-bit integer divided by \<open>2 ^ 53\<close>.
\<close>

definition random_uniform :: "env \<Rightarrow> rat \<Rightarrow> rat \<Rightarrow> state \<Rightarrow> rat \<times> state" where
  "random_uniform w a b st =
     (a + (b - a) * (of_nat (random_bits w (draws st) mod 2 ^ 53) / 2 ^ 53),
      st\<lparr>draws := draws st + 1\<rparr>)"

text \<open>An environment variable that is unset or empty is false in \<^verbatim>\<open>if CSFLOAT_API_KEY\<close>.\<close>

definition has_key :: "env \<Rightarrow> bool" where
  "has_key w = (case CSFLOAT_API_KEY w of None \<Rightarrow> False | Some k \<Rightarrow> k \<noteq> [])"

definition csfloat_headers :: "env \<Rightarrow> headers" where
  "csfloat_headers w =
     (if has_key w then [(''Authorization'', ''Bearer '' @ the (CSFLOAT_API_KEY w))] else [])"

definition csfloat_url :: "string \<Rightarrow> string" where
  "csfloat_url market_hash =
     ''https://api.csfloat.com/api/v1/listings?search='' @ quote market_hash"

text \<open>
  The test \<^verbatim>\<open>data and isinstance(data, list) and len(data) > 0\<close> holds exactly for a
  list with a first element, which is \<^verbatim>\<open>data[0]\<close>. Its \<^verbatim>\<open>get\<close> is outside the
  \<^verbatim>\<open>try\<close>; the conversion and the division are inside, under \<^verbatim>\<open>except Exception\<close>.
\<close>

definition get_csfloat_price :: "env \<Rightarrow> string \<Rightarrow> state \<Rightarrow> rat res" where
  "get_csfloat_price w market_hash st =
     (case safe_request w (csfloat_url market_hash) (csfloat_headers w) 3 (3 / 2) st of
        (Inl e, st1) \<Rightarrow> (Inl e, st1)
      | (Inr data, st1) \<Rightarrow>
          (case data of
             JArr (first # others) \<Rightarrow>
               (case py_get first ''price'' (JNum 0) of
                  Inl e \<Rightarrow> (Inl e, st1)
                | Inr price \<Rightarrow>
                    (case py_float w price of
                       Inl e \<Rightarrow> (Inr 0, st1)
                     | Inr x \<Rightarrow> (Inr (x / 100), st1)))
           | _ \<Rightarrow> (Inr 0, st1)))"

definition steam_market_url :: "string \<Rightarrow> string" where
  "steam_market_url market_hash =
     ''https://steamcommunity.com/market/priceoverview/?appid=730&currency=1&market_hash_name=''
       @ quote market_hash"

text \<open>
  \<^verbatim>\<open>a or b\<close> is \<open>a\<close> when \<open>a\<close> is true and \<open>b\<close> otherwise. \<^verbatim>\<open>replace\<close> exists on a
  string only; \<^verbatim>\<open>float\<close> of a string raises nothing but ValueError.
\<close>

definition get_steam_market_price :: "env \<Rightarrow> string \<Rightarrow> state \<Rightarrow> rat res" where
  "get_steam_market_price w market_hash st =
     (case safe_request w (steam_market_url market_hash) [] 3 (3 / 2) st of
        (Inl e, st1) \<Rightarrow> (Inl e, st1)
      | (Inr data, st1) \<Rightarrow>
          if \<not> truthy data then (Inr 0, st1)
          else
            (case py_get data ''success'' JNull of
               Inl e \<Rightarrow> (Inl e, st1)
             | Inr success \<Rightarrow>
                 if \<not> truthy success then (Inr 0, st1)
                 else
                   (case py_get data ''lowest_price'' JNull of
                      Inl e \<Rightarrow> (Inl e, st1)
                    | Inr lowest \<Rightarrow>
                        (case (if truthy lowest then Inr lowest
                               else py_get data ''median_price'' JNull) of
                           Inl e \<Rightarrow> (Inl e, st1)
                         | Inr price_str \<Rightarrow>
                             if \<not> truthy price_str then (Inr 0, st1)
                             else
                               (case price_str of
                                  JStr s \<Rightarrow>
                                    (case float_of_str w
                                            (py_strip (py_replace (py_replace s ''$'' []) '','' [])) of
                                       Some x \<Rightarrow> (Inr x, st1)
                                     | None \<Rightarrow> (Inr 0, st1))
                                | _ \<Rightarrow> (Inl AttributeError, st1))))))"

text \<open>
  \<open>market_hash\<close> is what the inventory holds under \<^verbatim>\<open>market_hash_name\<close>, true by the
  caller's test; \<^verbatim>\<open>quote\<close> raises TypeError on what is not a string.
\<close>

definition get_item_price :: "env \<Rightarrow> json \<Rightarrow> state \<Rightarrow> rat res" where
  "get_item_price w market_hash db =
     (case market_hash of
        JStr mh \<Rightarrow>
          (case get_item_cache db mh of
             Some price \<Rightarrow> (Inr price, db)
           | None \<Rightarrow>
               (case (if has_key w then get_csfloat_price w mh db
                      else get_steam_market_price w mh db) of
                  (Inl e, db1) \<Rightarrow> (Inl e, db1)
                | (Inr price, db1) \<Rightarrow>
                    (case random_uniform w (3 / 10) (8 / 10) (set_item_cache mh price 3600 db1) of
                       (jitter, db2) \<Rightarrow>
                         (case time_sleep jitter db2 of
                            (Inl e, db3) \<Rightarrow> (Inl e, db3)
                          | (Inr u, db3) \<Rightarrow> (Inr price, db3)))))
      | _ \<Rightarrow> (Inl TypeError, db))"

subsection \<open>The route /value\<close>

text \<open>A reply is the status code and the dict given to \<^verbatim>\<open>jsonify\<close>, in insertion order.\<close>

datatype reply = Reply nat "(string \<times> json) list"

text \<open>
  The loop \<^verbatim>\<open>for item in items\<close>; \<open>item_details\<close> holds the pairs of \<^verbatim>\<open>name\<close> and
  \<^verbatim>\<open>price_usd\<close>.
\<close>

fun price_items ::
  "env \<Rightarrow> bool \<Rightarrow> json list \<Rightarrow> rat \<Rightarrow> (json \<times> rat) list \<Rightarrow> state
     \<Rightarrow> (rat \<times> (json \<times> rat) list) res" where
  "price_items w detailed [] total_value item_details db = (Inr (total_value, item_details), db)"
| "price_items w detailed (it # items) total_value item_details db =
     (case py_get it ''market_hash_name'' JNull of
        Inl e \<Rightarrow> (Inl e, db)
      | Inr market_hash \<Rightarrow>
          if \<not> truthy market_hash then price_items w detailed items total_value item_details db
          else
            (case get_item_price w market_hash db of
               (Inl e, db1) \<Rightarrow> (Inl e, db1)
             | (Inr price, db1) \<Rightarrow>
                 price_items w detailed items (total_value + price)
                   (if detailed then item_details @ [(market_hash, py_round price 2)]
                    else item_details) db1))"

definition inventory_url :: "string \<Rightarrow> string" where
  "inventory_url steamid =
     ''https://steamcommunity.com/inventory/'' @ steamid @ ''/730/2?l=english&count=5000''"

text \<open>\<^verbatim>\<open>sorted(item_details, key=..., reverse=True)\<close> is stable, as \<open>sort_key\<close> is.\<close>

definition items_json :: "(json \<times> rat) list \<Rightarrow> json" where
  "items_json item_details =
     JArr (map (\<lambda>(name, price_usd). JObj [(''name'', name), (''price_usd'', JNum price_usd)])
             (sort_key (\<lambda>(name, price_usd). - price_usd) item_details))"

definition value_route :: "env \<Rightarrow> string option \<Rightarrow> bool \<Rightarrow> state \<Rightarrow> reply res" where
  "value_route w trade_url detailed db =
     (case extract_steamid trade_url of
        None \<Rightarrow> (Inr (Reply 400 [(''error'', JStr ''Invalid URL'')]), db)
      | Some steamid \<Rightarrow>
          if steamid = [] then (Inr (Reply 400 [(''error'', JStr ''Invalid URL'')]), db)
          else
            (let cached = get_cached_value db steamid in
             if cached \<noteq> None \<and> \<not> detailed then
               (Inr (Reply 200 [(''steamid'', JStr steamid), (''total'', JNum (the cached)),
                                (''cached'', JBool True)]), db)
             else
               (case safe_request w (inventory_url steamid) [] 3 (3 / 2) db of
                  (Inl e, db1) \<Rightarrow> (Inl e, db1)
                | (Inr inventory, db1) \<Rightarrow>
                    if \<not> truthy inventory
                    then (Inr (Reply 502 [(''error'', JStr ''Failed to fetch inventory'')]), db1)
                    else
                      (case py_in ''descriptions'' inventory of
                         Inl e \<Rightarrow> (Inl e, db1)
                       | Inr present \<Rightarrow>
                           if \<not> present
                           then (Inr (Reply 502 [(''error'', JStr ''Failed to fetch inventory'')]), db1)
                           else
                             (case py_get inventory ''descriptions'' (JArr []) of
                                Inl e \<Rightarrow> (Inl e, db1)
                              | Inr items \<Rightarrow>
                                  if \<not> truthy items
                                  then (Inr (Reply 404 [(''error'', JStr ''No items found'')]), db1)
                                  else
                                    (case py_iter items of
                                       Inl e \<Rightarrow> (Inl e, db1)
                                     | Inr its \<Rightarrow>
                                         (case price_items w detailed its 0 [] db1 of
                                            (Inl e, db2) \<Rightarrow> (Inl e, db2)
                                          | (Inr (total_value, item_details), db2) \<Rightarrow>
                                              (Inr (Reply 200
                                                 ([(''steamid'', JStr steamid),
                                                   (''total'', JNum (py_round total_value 2)),
                                                   (''cached'', JBool False),
                                                   (''source'', JStr (if has_key w then ''CSFloat''
                                                                      else ''Steam Market''))]
                                                  @ (if detailed
                                                     then [(''items'', items_json item_details)]
                                                     else []))),
                                               set_cached_value steamid total_value 300 db2))))))))"

subsection \<open>Example inputs\<close>

text \<open>An empty database at time 0, before any request.\<close>

definition db0 :: state where
  "db0 = \<lparr>item_prices = Map.empty, inventory_values = Map.empty, clock = 0, requests = 0,
          draws = 0, trace = []\<rparr>"

text \<open>
  The scenario of the spec: an inventory of two entries, the second without a market
  key. The fallback source answers 0.125 dollars for every item; the primary source
  answers a price of minus 500 cents.
\<close>

definition profile_url :: string where
  "profile_url = ''https://steamcommunity.com/profiles/76561198000000001''"

definition inventory_example :: json where
  "inventory_example =
     JObj [(''descriptions'',
            JArr [JObj [(''market_hash_name'', JStr ''AK-47 | Redline (Field-Tested)'')],
                  JObj [(''name'', JStr ''???'')]])]"

definition steam_env :: env where
  "steam_env =
     \<lparr>CSFLOAT_API_KEY = None,
      respond = (\<lambda>n url.
        if url = inventory_url ''76561198000000001'' then Response 200 (Some inventory_example)
        else Response 200 (Some (JObj [(''success'', JBool True),
                                       (''lowest_price'', JStr ''$0.125'')]))),
      random_bits = (\<lambda>n. 0),
      float_of_str = (\<lambda>s. if s = ''0.125'' then Some (1 / 8) else None)\<rparr>"

definition csfloat_env :: env where
  "csfloat_env =
     \<lparr>CSFLOAT_API_KEY = Some ''secret'',
      respond = (\<lambda>n url.
        if url = inventory_url ''76561198000000001'' then Response 200 (Some inventory_example)
        else Response 200 (Some (JArr [JObj [(''price'', JNum (- 500))]]))),
      random_bits = (\<lambda>n. 0),
      float_of_str = (\<lambda>s. None)\<rparr>"

text \<open>A database whose valuation cache holds a fresh total of 5 for the user.\<close>

definition db_cached :: state where
  "db_cached = db0\<lparr>inventory_values := [''76561198000000001'' \<mapsto> (5, 300)]\<rparr>"

section \<open>Properties\<close>

subsection \<open>What safe_request leaves alone\<close>

lemma time_sleep_cases:
  "time_sleep d st = (r, st') \<Longrightarrow>
     (d < 0 \<and> r = Inl ValueError \<and> st' = st) \<or>
     (0 \<le> d \<and> r = Inr () \<and> st' = st\<lparr>clock := clock st + d, trace := trace st @ [Sleep d]\<rparr>)"
  by (auto simp: time_sleep_def split: if_splits)

lemma attempts_frame:
  "attempts w url hdrs backoff as st = (r, st') \<Longrightarrow>
     item_prices st' = item_prices st \<and> inventory_values st' = inventory_values st
     \<and> draws st' = draws st \<and> requests st \<le> requests st'
     \<and> (\<exists>evs. trace st' = trace st @ evs)"
proof (induction as arbitrary: st)
  case Nil
  then show ?case by simp
next
  case (Cons a as)
  show ?case
  proof (cases "respond w (requests st) url")
    case Failure
    with Cons.prems Cons.IH show ?thesis
      by (fastforce simp: requests_get_def time_sleep_def split: if_splits)
  next
    case (Response status body)
    with Cons.prems Cons.IH show ?thesis
      by (fastforce simp: requests_get_def time_sleep_def split: if_splits option.splits)
  qed
qed


lemma attempts_payload:
  "attempts w url hdrs backoff as st = (Inr j, st') \<Longrightarrow>
     j = JNull \<or> (\<exists>n. respond w n url = Response 200 (Some j))"
proof (induction as arbitrary: st)
  case Nil
  then show ?case by simp
next
  case (Cons a as)
  show ?case
  proof (cases "respond w (requests st) url")
    case Failure
    with Cons.prems Cons.IH show ?thesis
      by (fastforce simp: requests_get_def time_sleep_def split: if_splits)
  next
    case (Response status body)
    with Cons.prems Cons.IH show ?thesis
      by (fastforce simp: requests_get_def time_sleep_def split: if_splits option.splits)
  qed
qed

lemma attempts_first:
  "attempts w url hdrs backoff (a # as) st = (r, st') \<Longrightarrow>
     requests st < requests st' \<and> (\<exists>evs. trace st' = trace st @ Get url hdrs # evs)"
proof (cases "respond w (requests st) url")
  case Failure
  assume "attempts w url hdrs backoff (a # as) st = (r, st')"
  with Failure show ?thesis
    by (auto simp: requests_get_def time_sleep_def split: if_splits dest!: attempts_frame)
next
  case (Response status body)
  assume "attempts w url hdrs backoff (a # as) st = (r, st')"
  with Response show ?thesis
    by (auto simp: requests_get_def time_sleep_def split: if_splits option.splits dest!: attempts_frame)
qed


lemma attempts_rate_limited:
  assumes "0 \<le> backoff"
    and "\<forall>i<k. \<exists>b. respond w (requests st + i) url = Response 429 b"
  shows "attempts w url hdrs backoff ([0 ..< k] @ rest) st =
           attempts w url hdrs backoff rest
             (st\<lparr>clock := clock st + (\<Sum>i<k. backoff * (of_nat i + 1)),
                 requests := requests st + k,
                 trace := trace st
                   @ concat (map (\<lambda>i. [Get url hdrs, Sleep (backoff * (of_nat i + 1))]) [0 ..< k])\<rparr>)"
  using assms(2)
proof (induction k arbitrary: rest)
  case 0
  show ?case by simp
next
  case (Suc k)
  from Suc.prems obtain b where b: "respond w (requests st + k) url = Response 429 b"
    by blast
  have nonneg: "\<not> backoff * (of_nat k + 1) < 0"
    using assms(1) by (simp add: not_less)
  have "attempts w url hdrs backoff ([0 ..< Suc k] @ rest) st =
          attempts w url hdrs backoff ([0 ..< k] @ (k # rest)) st"
    by simp
  also have "\<dots> = attempts w url hdrs backoff (k # rest)
      (st\<lparr>clock := clock st + (\<Sum>i<k. backoff * (of_nat i + 1)),
          requests := requests st + k,
          trace := trace st
            @ concat (map (\<lambda>i. [Get url hdrs, Sleep (backoff * (of_nat i + 1))]) [0 ..< k])\<rparr>)"
    using Suc.prems by (intro Suc.IH) simp
  also have "\<dots> = attempts w url hdrs backoff rest
      (st\<lparr>clock := clock st + (\<Sum>i<Suc k. backoff * (of_nat i + 1)),
          requests := requests st + Suc k,
          trace := trace st
            @ concat (map (\<lambda>i. [Get url hdrs, Sleep (backoff * (of_nat i + 1))]) [0 ..< Suc k])\<rparr>)"
    using b nonneg
    by (simp add: requests_get_def time_sleep_def add.assoc)
       (rule arg_cong [where f = "attempts w url hdrs backoff rest"], simp)
  finally show ?case .
qed

text \<open>
  C3. On a response 429 the wrapper sleeps \<open>backoff * (attempt + 1)\<close>, the base delay
  times the number of the attempt counted from 1, and goes on to the next attempt. So
  when the first \<open>k\<close> answers are 429 and the next one is 200, with \<open>k\<close> below the
  budget, exactly \<open>k + 1\<close> requests are made, the sleeps between them are
  \<open>backoff * 1, backoff * 2, \<dots>, backoff * k\<close> (linear and non-decreasing), and the
  payload of the 200 answer is returned. The answers 429, 429, 200 are \<open>k = 2\<close>.
\<close>

theorem safe_request_rate_limited:
  assumes "0 \<le> backoff"
    and "int k < retries"
    and "\<forall>i<k. \<exists>b. respond w (requests st + i) url = Response 429 b"
    and "respond w (requests st + k) url = Response 200 (Some payload)"
  shows "safe_request w url hdrs retries backoff st =
           (Inr payload,
            st\<lparr>clock := clock st + (\<Sum>i<k. backoff * (of_nat i + 1)),
                requests := requests st + k + 1,
                trace := trace st
                  @ concat (map (\<lambda>i. [Get url hdrs, Sleep (backoff * (of_nat i + 1))]) [0 ..< k])
                  @ [Get url hdrs]\<rparr>)
         \<and> (\<forall>i j. i \<le> j \<longrightarrow> backoff * (of_nat i + 1) \<le> backoff * (of_nat j + 1))"
proof -
  from assms(2) have "k < nat retries" by linarith
  then have "[0 ..< nat retries] = [0 ..< k] @ (k # [Suc k ..< nat retries])"
    by (metis upt_conv_Cons upt_add_eq_append zero_le le_add_diff_inverse less_imp_le_nat)
  then have "safe_request w url hdrs retries backoff st =
      attempts w url hdrs backoff (k # [Suc k ..< nat retries])
        (st\<lparr>clock := clock st + (\<Sum>i<k. backoff * (of_nat i + 1)),
            requests := requests st + k,
            trace := trace st
              @ concat (map (\<lambda>i. [Get url hdrs, Sleep (backoff * (of_nat i + 1))]) [0 ..< k])\<rparr>)"
    using attempts_rate_limited [OF assms(1) assms(3)] by (simp add: safe_request_def)
  then have "safe_request w url hdrs retries backoff st =
           (Inr payload,
            st\<lparr>clock := clock st + (\<Sum>i<k. backoff * (of_nat i + 1)),
                requests := requests st + k + 1,
                trace := trace st
                  @ concat (map (\<lambda>i. [Get url hdrs, Sleep (backoff * (of_nat i + 1))]) [0 ..< k])
                  @ [Get url hdrs]\<rparr>)"
    using assms(4) by (simp add: requests_get_def)
  moreover have "\<forall>i j. i \<le> j \<longrightarrow> backoff * (of_nat i + 1) \<le> backoff * (of_nat j + 1)"
    using assms(1) by (simp add: mult_left_mono)
  ultimately show ?thesis by blast
qed

text \<open>
  The answers 429, 429, 200 with the default budget 3 and base delay 1.5: three requests,
  a sleep of 1.5 and then one of 3.
\<close>

theorem safe_request_rate_limited_witness:
  "safe_request
     \<lparr>CSFLOAT_API_KEY = None,
      respond = (\<lambda>n url. if n < 2 then Response 429 None else Response 200 (Some (JStr ''ok''))),
      random_bits = (\<lambda>n. 0), float_of_str = (\<lambda>s. None)\<rparr>
     ''u'' [] 3 (3 / 2) db0 =
   (Inr (JStr ''ok''),
    db0\<lparr>clock := 9 / 2, requests := 3,
        trace := [Get ''u'' [], Sleep (3 / 2), Get ''u'' [], Sleep 3, Get ''u'' []]\<rparr>)"
  using safe_request_rate_limited [of "3 / 2" 2 3
     "\<lparr>CSFLOAT_API_KEY = None,
      respond = (\<lambda>n url. if n < 2 then Response 429 None else Response 200 (Some (JStr ''ok''))),
      random_bits = (\<lambda>n. 0), float_of_str = (\<lambda>s. None)\<rparr>" db0 "''u''" "JStr ''ok''" "[]"]
  by (simp add: db0_def numeral_2_eq_2 lessThan_Suc)

text \<open>
  C4. A status that is neither 200 nor 429 ends the loop at once: one request is made,
  nothing sleeps, and the result is \<^verbatim>\<open>None\<close>, whatever budget is left.
\<close>

theorem safe_request_not_retryable:
  assumes "respond w (requests st) url = Response status body"
    and "status \<noteq> 200" and "status \<noteq> 429" and "0 < retries"
  shows "safe_request w url hdrs retries backoff st =
           (Inr JNull, st\<lparr>requests := requests st + 1, trace := trace st @ [Get url hdrs]\<rparr>)"
proof -
  from assms(4) obtain m where "nat retries = Suc m"
    by (metis gr0_implies_Suc zero_less_nat_eq)
  then have "[0 ..< nat retries] = 0 # [1 ..< Suc m]"
    by (simp add: upt_conv_Cons)
  with assms(1-3) show ?thesis
    by (simp add: safe_request_def requests_get_def)
qed

text \<open>
  The answer 404 with the default budget 3.
\<close>

theorem safe_request_not_retryable_witness:
  "safe_request
     \<lparr>CSFLOAT_API_KEY = None, respond = (\<lambda>n url. Response 404 None),
      random_bits = (\<lambda>n. 0), float_of_str = (\<lambda>s. None)\<rparr>
     ''u'' [] 3 (3 / 2) db0 =
   (Inr JNull, db0\<lparr>requests := 1, trace := [Get ''u'' []]\<rparr>)"
  using safe_request_not_retryable [of
     "\<lparr>CSFLOAT_API_KEY = None, respond = (\<lambda>n url. Response 404 None),
      random_bits = (\<lambda>n. 0), float_of_str = (\<lambda>s. None)\<rparr>" db0 "''u''" 404 None 3 "[]" "3 / 2"]
  by (simp add: db0_def)



lemma safe_request_frame:
  "safe_request w url hdrs retries backoff st = (r, st') \<Longrightarrow>
     item_prices st' = item_prices st \<and> inventory_values st' = inventory_values st
     \<and> draws st' = draws st \<and> requests st \<le> requests st'
     \<and> (\<exists>evs. trace st' = trace st @ evs)"
  unfolding safe_request_def by (rule attempts_frame)

lemma safe_request_first:
  assumes "safe_request w url hdrs retries backoff st = (r, st')" and "0 < retries"
  shows "requests st < requests st' \<and> (\<exists>evs. trace st' = trace st @ Get url hdrs # evs)"
proof -
  from assms(2) obtain m where "nat retries = Suc m"
    by (metis gr0_implies_Suc zero_less_nat_eq)
  then have "[0 ..< nat retries] = 0 # [1 ..< Suc m]"
    by (simp add: upt_conv_Cons)
  with assms(1) have "attempts w url hdrs backoff (0 # [1 ..< Suc m]) st = (r, st')"
    by (simp only: safe_request_def)
  then show ?thesis
    by (rule attempts_first)
qed

lemma safe_request_payload:
  "safe_request w url hdrs retries backoff st = (Inr j, st') \<Longrightarrow>
     j = JNull \<or> (\<exists>n. respond w n url = Response 200 (Some j))"
  unfolding safe_request_def by (rule attempts_payload)

lemma get_csfloat_price_state:
  "snd (get_csfloat_price w mh st) =
     snd (safe_request w (csfloat_url mh) (csfloat_headers w) 3 (3 / 2) st)"
  by (simp add: get_csfloat_price_def split: prod.splits sum.splits json.splits list.splits)

lemma get_steam_market_price_state:
  "snd (get_steam_market_price w mh st) =
     snd (safe_request w (steam_market_url mh) [] 3 (3 / 2) st)"
  by (simp add: get_steam_market_price_def split: prod.splits sum.splits json.splits option.splits)

lemma random_uniform_bounds:
  "3 / 10 \<le> fst (random_uniform w (3 / 10) (8 / 10) st)
     \<and> fst (random_uniform w (3 / 10) (8 / 10) st) < 8 / 10"
proof -
  define x :: rat where "x = of_nat (random_bits w (draws st) mod 2 ^ 53) / 2 ^ 53"
  have "random_bits w (draws st) mod 2 ^ 53 < (2 ^ 53 :: nat)"
    by simp
  then have "(of_nat (random_bits w (draws st) mod 2 ^ 53) :: rat) < of_nat (2 ^ 53)"
    by (simp only: of_nat_less_iff)
  then have "x < 1"
    by (simp add: x_def)
  moreover have "0 \<le> x"
    by (simp add: x_def)
  ultimately show ?thesis
    by (simp add: random_uniform_def x_def [symmetric])
qed

lemma get_item_price_hit:
  "get_item_cache db mh = Some p \<Longrightarrow> get_item_price w (JStr mh) db = (Inr p, db)"
  by (simp add: get_item_price_def)

lemma fetch_frame:
  assumes "(if has_key w then get_csfloat_price w mh db else get_steam_market_price w mh db) = (r, db1)"
  shows "item_prices db1 = item_prices db \<and> inventory_values db1 = inventory_values db
     \<and> draws db1 = draws db \<and> requests db < requests db1
     \<and> (\<exists>evs url hdrs. trace db1 = trace db @ Get url hdrs # evs)"
proof (cases "has_key w")
  case True
  with assms have "snd (get_csfloat_price w mh db) = db1" by simp
  then obtain r0 where "safe_request w (csfloat_url mh) (csfloat_headers w) 3 (3 / 2) db = (r0, db1)"
    by (metis get_csfloat_price_state prod.collapse)
  then show ?thesis
    using safe_request_frame safe_request_first by (metis zero_less_numeral)
next
  case False
  with assms have "snd (get_steam_market_price w mh db) = db1" by simp
  then obtain r0 where "safe_request w (steam_market_url mh) [] 3 (3 / 2) db = (r0, db1)"
    by (metis get_steam_market_price_state prod.collapse)
  then show ?thesis
    using safe_request_frame safe_request_first by (metis zero_less_numeral)
qed

lemma get_item_price_miss:
  assumes "get_item_cache db mh = None"
    and "(if has_key w then get_csfloat_price w mh db else get_steam_market_price w mh db) = (Inr p, db1)"
  shows "get_item_price w (JStr mh) db =
           (Inr p,
            db1\<lparr>item_prices := (item_prices db1)(mh \<mapsto> (p, clock db1 + 3600)),
                clock := clock db1 + fst (random_uniform w (3 / 10) (8 / 10) db1),
                draws := draws db1 + 1,
                trace := trace db1 @ [Sleep (fst (random_uniform w (3 / 10) (8 / 10) db1))]\<rparr>)"
proof -
  have "\<not> fst (random_uniform w (3 / 10) (8 / 10) db1) < 0"
    using random_uniform_bounds [of w db1] by linarith
  then have "\<not> 3 / 10 + (of_nat (random_bits w (draws db1) mod 2 ^ 53) / 2 ^ 53) / 2 < (0::rat)"
    by (simp add: random_uniform_def)
  with assms show ?thesis
    by (simp add: get_item_price_def random_uniform_def set_item_cache_def time_sleep_def)
qed

lemma get_item_price_miss_inv:
  assumes "get_item_cache db mh = None"
    and "get_item_price w (JStr mh) db = (Inr p, db')"
  shows "\<exists>db1. (if has_key w then get_csfloat_price w mh db else get_steam_market_price w mh db) = (Inr p, db1)"
  using assms
  by (auto simp: get_item_price_def split: prod.splits sum.splits if_splits)

end
